theory Spec2Isabelle
  imports Complex_Main
begin

section \<open>Definitions\<close>

subsection \<open>Moods and the mood histogram (MoodTracker.tsx)\<close>

text \<open>
  A mood travels through the program as a string, but the only strings the pages ever write
  are the keys of their \<^verbatim>\<open>moodEmojis\<close> tables (Timeline, Diary, MoodTracker, MemoryLane) and
  the literal \<^verbatim>\<open>'missing'\<close> of \<^verbatim>\<open>handleMissYou\<close>. They are the seven names below. None of
  them is an integer-like property key, so a JavaScript object keyed by moods enumerates its
  entries in insertion order.
\<close>

datatype mood = Happy | Sad | Love | Excited | Peaceful | Missing | Tired

text \<open>\<^verbatim>\<open>type MoodStats = { mood: string; count: number; percentage: number }\<close>.
  The percentage is a JavaScript number; the model keeps the exact quotient, of which the
  program holds the nearest double.\<close>

record MoodStats =
  mood :: mood
  count :: nat
  percentage :: real

text \<open>\<^verbatim>\<open>const moodCounts: Record<string, number> = {}\<close>: an object whose own keys are
  kept in the order of their first assignment.\<close>

type_synonym moodCounts = "(mood \<times> nat) list"

fun record_set :: "('k \<times> 'v) list \<Rightarrow> 'k \<Rightarrow> 'v \<Rightarrow> ('k \<times> 'v) list" where
  "record_set [] k v = [(k, v)]"
| "record_set ((k', v') # kvs) k v =
     (if k' = k then (k', v) # kvs else (k', v') # record_set kvs k v)"

text \<open>The body of the \<^verbatim>\<open>forEach\<close>: \<^verbatim>\<open>moodCounts[mood] = (moodCounts[mood] || 0) + 1\<close>.
  A missing key reads \<^verbatim>\<open>undefined\<close> and a stored 0 is falsy; both give 0.\<close>

definition tally :: "moodCounts \<Rightarrow> mood \<Rightarrow> moodCounts" where
  "tally mc m =
     record_set mc m ((case map_of mc m of None \<Rightarrow> 0 | Some c \<Rightarrow> if c = 0 then 0 else c) + 1)"

text \<open>\<^verbatim>\<open>Array.prototype.sort(comparefn)\<close> is stable: an element goes before the first
  element it does not compare greater than, the elements taken from the right.\<close>

fun insert_by :: "('a \<Rightarrow> 'a \<Rightarrow> int) \<Rightarrow> 'a \<Rightarrow> 'a list \<Rightarrow> 'a list" where
  "insert_by cmp x [] = [x]"
| "insert_by cmp x (y # ys) =
     (if cmp x y \<le> 0 then x # y # ys else y # insert_by cmp x ys)"

definition js_sort :: "('a \<Rightarrow> 'a \<Rightarrow> int) \<Rightarrow> 'a list \<Rightarrow> 'a list" where
  "js_sort cmp xs = foldr (insert_by cmp) xs []"

text \<open>The comparator \<^verbatim>\<open>(a, b) => b.count - a.count\<close>.\<close>

definition by_count_desc :: "MoodStats \<Rightarrow> MoodStats \<Rightarrow> int" where
  "by_count_desc a b = int (count b) - int (count a)"

definition calculateMoodStats :: "mood list \<Rightarrow> MoodStats list" where
  "calculateMoodStats moods =
     (let moodCounts = foldl tally [] moods;
          total = length moods;
          stats = js_sort by_count_desc
                    (map (\<lambda>(m, c). \<lparr>mood = m, count = c,
                                     percentage = (if total > 0 then (real c / real total) * 100 else 0)\<rparr>)
                         moodCounts)
      in stats)"

text \<open>The moods of a sequence in the order in which they are first met.\<close>

fun first_seen :: "'a list \<Rightarrow> 'a list" where
  "first_seen [] = []"
| "first_seen (x # xs) = x # removeAll x (first_seen xs)"


text \<open>The record of mood \<open>m\<close> in the histogram of \<open>moods\<close>.\<close>

definition mood_stat :: "mood list \<Rightarrow> mood \<Rightarrow> MoodStats" where
  "mood_stat moods m =
     \<lparr>mood = m, count = count_list moods m,
      percentage = (if length moods > 0 then (real (count_list moods m) / real (length moods)) * 100 else 0)\<rparr>"

subsection \<open>Strings and dates of the JavaScript runtime\<close>

text \<open>The code units that \<^verbatim>\<open>String.prototype.trim\<close> strips (white space and line
  terminators), as far as they lie in the range of \<^typ>\<open>char\<close>: tab, line feed, vertical tab,
  form feed, carriage return, space and no-break space.\<close>

definition is_space :: "char \<Rightarrow> bool" where
  "is_space c = (c \<in> set [CHR 0x09, CHR 0x0A, CHR 0x0B, CHR 0x0C, CHR 0x0D, CHR 0x20, CHR 0xA0])"

definition trim :: "string \<Rightarrow> string" where
  "trim s = rev (dropWhile is_space (rev (dropWhile is_space s)))"

text \<open>\<^verbatim>\<open>!s.trim()\<close>: the trimmed string is empty, hence falsy.\<close>

definition blank :: "string \<Rightarrow> bool" where
  "blank s = (trim s = [])"

text \<open>An instant (a time value) is a number of milliseconds since the epoch, in UTC. A
  \<^verbatim>\<open>Date\<close> is kept in the broken-down form its getters return, which is local time:
  \<^verbatim>\<open>getFullYear\<close>, \<^verbatim>\<open>getMonth\<close> from 0, \<^verbatim>\<open>getDate\<close> from 1, and the
  milliseconds since local midnight. The time zone of the browser is given by its local time
  zone adjustment, the offset of local time from UTC (in milliseconds) at each local time.
  The functions below are those of the ECMAScript specification of \<^verbatim>\<open>Date\<close>.\<close>

type_synonym instant = int

record Date =
  fullYear :: int
  monthIndex :: int
  dayOfMonth :: int
  timeInDay :: int

definition msPerDay :: int where
  "msPerDay = 86400000"

definition DaysInYear :: "int \<Rightarrow> int" where
  "DaysInYear y =
     (if y mod 4 \<noteq> 0 then 365 else if y mod 100 \<noteq> 0 then 366
      else if y mod 400 \<noteq> 0 then 365 else 366)"

definition DayFromYear :: "int \<Rightarrow> int" where
  "DayFromYear y = 365 * (y - 1970) + (y - 1969) div 4 - (y - 1901) div 100 + (y - 1601) div 400"

definition DaysInMonth :: "int \<Rightarrow> int \<Rightarrow> int" where
  "DaysInMonth y m =
     (if m = 1 then DaysInYear y - 337
      else if m = 3 \<or> m = 5 \<or> m = 8 \<or> m = 10 then 30 else 31)"

text \<open>The day within the year on which month \<open>m\<close> (from 0) starts.\<close>

definition DayOfMonthStart :: "int \<Rightarrow> int \<Rightarrow> int" where
  "DayOfMonthStart y m = sum_list (map (DaysInMonth y) [0..<nat m])"

definition MakeDay :: "int \<Rightarrow> int \<Rightarrow> int \<Rightarrow> int" where
  "MakeDay year month dt =
     (let ym = year + month div 12; mn = month mod 12
      in DayFromYear ym + DayOfMonthStart ym mn + dt - 1)"

text \<open>The local day number (days since the epoch) of a date.\<close>

definition dayNumber :: "Date \<Rightarrow> int" where
  "dayNumber d = MakeDay (fullYear d) (monthIndex d) (dayOfMonth d)"

text \<open>\<^verbatim>\<open>UTC(t)\<close>: the time value of the local time \<open>t\<close>, where \<open>tza\<close> is the local time zone
  adjustment; and \<^verbatim>\<open>Day(t)\<close>, the day number of a time value.\<close>

definition UTC :: "(int \<Rightarrow> int) \<Rightarrow> int \<Rightarrow> instant" where
  "UTC tza t = t - tza t"

definition Day :: "instant \<Rightarrow> int" where
  "Day t = t div msPerDay"

definition getTime :: "(int \<Rightarrow> int) \<Rightarrow> Date \<Rightarrow> instant" where
  "getTime tza d = UTC tza (dayNumber d * msPerDay + timeInDay d)"

text \<open>A date as \<^verbatim>\<open>new Date()\<close> returns it: the fields are in range.\<close>

definition valid_Date :: "Date \<Rightarrow> bool" where
  "valid_Date d =
     (0 \<le> monthIndex d \<and> monthIndex d < 12
      \<and> 1 \<le> dayOfMonth d \<and> dayOfMonth d \<le> DaysInMonth (fullYear d) (monthIndex d)
      \<and> 0 \<le> timeInDay d \<and> timeInDay d < msPerDay)"

text \<open>\<^verbatim>\<open>d.setMonth(m)\<close> recomputes the local day from the local year, the new month and the
  old local day of the month, keeps the local time within the day, and stores the time value
  of that local time; a month out of range carries into the year and a day beyond the
  month's end runs into the next month. The result is the new time value.\<close>

definition setMonth :: "(int \<Rightarrow> int) \<Rightarrow> Date \<Rightarrow> int \<Rightarrow> instant" where
  "setMonth tza d m = UTC tza (MakeDay (fullYear d) m (dayOfMonth d) * msPerDay + timeInDay d)"

text \<open>\<^verbatim>\<open>toISOString().split('T')[0]\<close> names the day of a time value in UTC; the model keeps
  that day as its day number.\<close>

definition toISOString_day :: "instant \<Rightarrow> int" where
  "toISOString_day t = Day t"

text \<open>The instant that the text \<^verbatim>\<open>day + 'T' + hh:mm:ss\<close> denotes to the database, whose
  time zone is UTC.\<close>

definition at_time :: "int \<Rightarrow> int \<Rightarrow> int \<Rightarrow> int \<Rightarrow> instant" where
  "at_time day h m s = day * msPerDay + ((h * 60 + m) * 60 + s) * 1000"


subsection \<open>Rows and tables (lib/supabase.ts and the schema migration)\<close>

text \<open>A \<^verbatim>\<open>uuid\<close> is opaque; the model numbers them. The joined \<^verbatim>\<open>profiles\<close> column of the
  TypeScript row types is only displayed and is left out.\<close>

type_synonym uuid = nat

datatype reaction_kind = love | hug | smile

record Profile =
  profile_id :: uuid
  profile_name :: string
  partner_id :: "uuid option"
  profile_created_at :: instant

record Post =
  post_id :: uuid
  post_user_id :: uuid
  post_content :: string
  post_mood :: mood
  image_url :: "string option"
  song_link :: "string option"
  is_miss_you :: bool
  post_created_at :: instant

record Reaction =
  reaction_id :: uuid
  reaction_post_id :: uuid
  reaction_user_id :: uuid
  reaction_type :: reaction_kind
  reaction_created_at :: instant

record Photo =
  photo_id :: uuid
  photo_user_id :: uuid
  photo_url :: string
  caption :: "string option"
  uploaded_at :: instant

record PlaylistItem =
  song_id :: uuid
  song_user_id :: uuid
  song_title :: string
  song_url :: string
  added_at :: instant

record DailyDiary =
  diary_id :: uuid
  diary_user_id :: uuid
  diary_date :: int
  diary_content :: string
  diary_mood :: mood
  diary_created_at :: instant

record Quote =
  quote_id :: uuid
  quote_user_id :: uuid
  quote_text :: string
  quote_is_read :: bool
  quote_created_at :: instant

record ChatMessage =
  message_id :: uuid
  sender_id :: uuid
  message :: string
  message_is_read :: bool
  sent_at :: instant

text \<open>The relations that the requests of the pages name: the eight tables that the migration
  creates, and \<^verbatim>\<open>daily_diary\<close>, which Diary.tsx names and no migration creates.\<close>

datatype table =
  Profiles | Posts | Reactions | Photos | Playlist | DailyDiaries | Quotes | ChatMessages
  | Daily_Diary

datatype verb = Select | Insert | Update | Delete

datatype backend_error =
  NetworkError | UndefinedTable | RlsViolation | UniqueViolation | ForeignKeyViolation

text \<open>What can be observed of a handler from outside the page: the requests it sends to the
  backend and the lines it writes with \<^verbatim>\<open>console.error\<close>.\<close>

datatype event = Request table verb | ConsoleError string backend_error

text \<open>The world a page runs in: the tables of the backend; for each of the coming requests,
  in order, whether it is lost on the way (requests beyond the list get through); the clock
  of the browser, as local time, and its local time zone adjustment; and the events so far.\<close>

record world =
  profiles :: "Profile list"
  posts :: "Post list"
  reactions :: "Reaction list"
  photos :: "Photo list"
  playlist :: "PlaylistItem list"
  daily_diaries :: "DailyDiary list"
  quotes :: "Quote list"
  chat_messages :: "ChatMessage list"
  failures :: "bool list"
  clock :: Date
  LocalTZA :: "int \<Rightarrow> int"
  trace :: "event list"

text \<open>The answer \<^verbatim>\<open>{ data, error }\<close> of a request: the client library resolves with an
  \<^verbatim>\<open>error\<close> field, it does not throw.\<close>

datatype 'a response = Data 'a | Failed backend_error

text \<open>Whether the next request reaches the backend, and the world after a request has been
  sent.\<close>

definition online :: "world \<Rightarrow> bool" where
  "online w = (case failures w of [] \<Rightarrow> True | lost # later \<Rightarrow> \<not> lost)"

definition sent :: "table \<Rightarrow> verb \<Rightarrow> world \<Rightarrow> world" where
  "sent t v w = w\<lparr>trace := trace w @ [Request t v], failures := tl (failures w)\<rparr>"

definition console_error :: "string \<Rightarrow> backend_error \<Rightarrow> world \<Rightarrow> world" where
  "console_error msg e w = w\<lparr>trace := trace w @ [ConsoleError msg e]\<rparr>"

text \<open>\<^verbatim>\<open>gen_random_uuid()\<close>: an identifier that no row of the table has.\<close>

definition fresh_uuid :: "uuid list \<Rightarrow> uuid" where
  "fresh_uuid ids = Suc (fold max ids 0)"

text \<open>\<^verbatim>\<open>now()\<close>.\<close>

definition now :: "world \<Rightarrow> instant" where
  "now w = getTime (LocalTZA w) (clock w)"

subsection \<open>Row-level security and the requests the pages send\<close>

text \<open>\<^verbatim>\<open>x IN (SELECT partner_id FROM profiles WHERE id = auth.uid())\<close>. A null
  \<^verbatim>\<open>partner_id\<close> matches nothing, and without a session (the policies are
  \<^verbatim>\<open>TO authenticated\<close>) nothing matches.\<close>

definition is_partner_of :: "world \<Rightarrow> uuid option \<Rightarrow> uuid \<Rightarrow> bool" where
  "is_partner_of w auth x =
     (case auth of None \<Rightarrow> False
      | Some u \<Rightarrow> Some x \<in> set (map partner_id (filter (\<lambda>p. profile_id p = u) (profiles w))))"

text \<open>\<^verbatim>\<open>user_id = auth.uid()\<close>.\<close>

definition is_self :: "uuid option \<Rightarrow> uuid \<Rightarrow> bool" where
  "is_self auth x = (auth = Some x)"

text \<open>\<^verbatim>\<open>REFERENCES profiles(id)\<close>.\<close>

definition has_profile :: "world \<Rightarrow> uuid \<Rightarrow> bool" where
  "has_profile w u = (u \<in> set (map profile_id (profiles w)))"

text \<open>Policy "Users can view own posts and partner posts".\<close>

definition posts_visible :: "world \<Rightarrow> uuid option \<Rightarrow> Post \<Rightarrow> bool" where
  "posts_visible w auth r = (is_self auth (post_user_id r) \<or> is_partner_of w auth (post_user_id r))"

text \<open>The filters a page puts on a query for posts: \<^verbatim>\<open>.eq('user_id', _)\<close> or
  \<^verbatim>\<open>.in('user_id', _)\<close> or neither, \<^verbatim>\<open>.gte\<close> and \<^verbatim>\<open>.lte\<close> on \<^verbatim>\<open>created_at\<close>,
  \<^verbatim>\<open>.in('mood', _)\<close> and \<^verbatim>\<open>.limit\<close>. Every query for posts is ordered by
  \<^verbatim>\<open>created_at\<close>, latest first.\<close>

datatype owner_filter = Unfiltered | Eq uuid | In "uuid list"

record posts_query =
  owner :: owner_filter
  gte_created_at :: "instant option"
  lte_created_at :: "instant option"
  in_mood :: "mood list option"
  limit :: "nat option"

definition all_posts :: posts_query where
  "all_posts = \<lparr>owner = Unfiltered, gte_created_at = None, lte_created_at = None,
                 in_mood = None, limit = None\<rparr>"

fun owner_matches :: "owner_filter \<Rightarrow> uuid \<Rightarrow> bool" where
  "owner_matches Unfiltered x = True"
| "owner_matches (Eq u) x = (x = u)"
| "owner_matches (In us) x = (x \<in> set us)"

definition post_matches :: "posts_query \<Rightarrow> Post \<Rightarrow> bool" where
  "post_matches q r =
     (owner_matches (owner q) (post_user_id r)
      \<and> (case gte_created_at q of None \<Rightarrow> True | Some t \<Rightarrow> t \<le> post_created_at r)
      \<and> (case lte_created_at q of None \<Rightarrow> True | Some t \<Rightarrow> post_created_at r \<le> t)
      \<and> (case in_mood q of None \<Rightarrow> True | Some ms \<Rightarrow> post_mood r \<in> set ms))"

definition limited :: "nat option \<Rightarrow> 'a list \<Rightarrow> 'a list" where
  "limited n rows = (case n of None \<Rightarrow> rows | Some k \<Rightarrow> take k rows)"

text \<open>The rows a query for posts returns to the session \<open>auth\<close>. Rows of equal
  \<^verbatim>\<open>created_at\<close> keep their table order.\<close>

definition posts_rows :: "uuid option \<Rightarrow> posts_query \<Rightarrow> world \<Rightarrow> Post list" where
  "posts_rows auth q w =
     limited (limit q)
       (sort_key (\<lambda>r. - post_created_at r)
          (filter (\<lambda>r. posts_visible w auth r \<and> post_matches q r) (posts w)))"

definition select_posts :: "uuid option \<Rightarrow> posts_query \<Rightarrow> world \<Rightarrow> Post list response \<times> world" where
  "select_posts auth q w =
     (if online w then (Data (posts_rows auth q w), sent Posts Select w)
      else (Failed NetworkError, sent Posts Select w))"

text \<open>Policy "Users can create own posts"; \<^verbatim>\<open>user_id\<close> references \<^verbatim>\<open>profiles\<close>.\<close>

definition insert_post ::
  "uuid option \<Rightarrow> uuid \<Rightarrow> string \<Rightarrow> mood \<Rightarrow> string option \<Rightarrow> string option \<Rightarrow> bool \<Rightarrow> world
     \<Rightarrow> unit response \<times> world" where
  "insert_post auth uid text md img song miss w =
     (if \<not> online w then (Failed NetworkError, sent Posts Insert w)
      else if \<not> is_self auth uid then (Failed RlsViolation, sent Posts Insert w)
      else if \<not> has_profile w uid then (Failed ForeignKeyViolation, sent Posts Insert w)
      else (Data (),
            sent Posts Insert
              (w\<lparr>posts := posts w @
                   [\<lparr>post_id = fresh_uuid (map post_id (posts w)), post_user_id = uid,
                     post_content = text, post_mood = md, image_url = img, song_link = song,
                     is_miss_you = miss, post_created_at = now w\<rparr>]\<rparr>)))"

text \<open>Policy "Users can view reactions on accessible posts"; the request is
  \<^verbatim>\<open>.from('reactions').select('*').in('post_id', postIds)\<close>.\<close>

definition reactions_visible :: "world \<Rightarrow> uuid option \<Rightarrow> Reaction \<Rightarrow> bool" where
  "reactions_visible w auth r =
     (reaction_post_id r \<in> set (map post_id (filter (posts_visible w auth) (posts w))))"

definition reactions_rows :: "uuid option \<Rightarrow> uuid list \<Rightarrow> world \<Rightarrow> Reaction list" where
  "reactions_rows auth postIds w =
     filter (\<lambda>r. reactions_visible w auth r \<and> reaction_post_id r \<in> set postIds) (reactions w)"

definition select_reactions ::
  "uuid option \<Rightarrow> uuid list \<Rightarrow> world \<Rightarrow> Reaction list response \<times> world" where
  "select_reactions auth postIds w =
     (if online w then (Data (reactions_rows auth postIds w), sent Reactions Select w)
      else (Failed NetworkError, sent Reactions Select w))"





text \<open>Policies "Users can view own photos and partner photos", "Users can create own
  photos" and "Users can delete own photos". The page asks for all photos, latest first.\<close>

definition photos_visible :: "world \<Rightarrow> uuid option \<Rightarrow> Photo \<Rightarrow> bool" where
  "photos_visible w auth r = (is_self auth (photo_user_id r) \<or> is_partner_of w auth (photo_user_id r))"

definition photos_rows :: "uuid option \<Rightarrow> world \<Rightarrow> Photo list" where
  "photos_rows auth w = sort_key (\<lambda>r. - uploaded_at r) (filter (photos_visible w auth) (photos w))"

definition select_photos :: "uuid option \<Rightarrow> world \<Rightarrow> Photo list response \<times> world" where
  "select_photos auth w =
     (if online w then (Data (photos_rows auth w), sent Photos Select w)
      else (Failed NetworkError, sent Photos Select w))"

definition insert_photo ::
  "uuid option \<Rightarrow> uuid \<Rightarrow> string \<Rightarrow> string option \<Rightarrow> world \<Rightarrow> unit response \<times> world" where
  "insert_photo auth uid url cap w =
     (if \<not> online w then (Failed NetworkError, sent Photos Insert w)
      else if \<not> is_self auth uid then (Failed RlsViolation, sent Photos Insert w)
      else if \<not> has_profile w uid then (Failed ForeignKeyViolation, sent Photos Insert w)
      else (Data (),
            sent Photos Insert
              (w\<lparr>photos := photos w @
                   [\<lparr>photo_id = fresh_uuid (map photo_id (photos w)), photo_user_id = uid,
                     photo_url = url, caption = cap, uploaded_at = now w\<rparr>]\<rparr>)))"

definition delete_photo :: "uuid option \<Rightarrow> uuid \<Rightarrow> world \<Rightarrow> unit response \<times> world" where
  "delete_photo auth pid w =
     (if \<not> online w then (Failed NetworkError, sent Photos Delete w)
      else (Data (),
            sent Photos Delete
              (w\<lparr>photos :=
                   filter (\<lambda>r. \<not> (photo_id r = pid \<and> is_self auth (photo_user_id r))) (photos w)\<rparr>)))"

text \<open>Policies "Users can create own songs" and "Users can delete own songs".\<close>

definition insert_song ::
  "uuid option \<Rightarrow> uuid \<Rightarrow> string \<Rightarrow> string \<Rightarrow> world \<Rightarrow> unit response \<times> world" where
  "insert_song auth uid title url w =
     (if \<not> online w then (Failed NetworkError, sent Playlist Insert w)
      else if \<not> is_self auth uid then (Failed RlsViolation, sent Playlist Insert w)
      else if \<not> has_profile w uid then (Failed ForeignKeyViolation, sent Playlist Insert w)
      else (Data (),
            sent Playlist Insert
              (w\<lparr>playlist := playlist w @
                   [\<lparr>song_id = fresh_uuid (map song_id (playlist w)), song_user_id = uid,
                     song_title = title, song_url = url, added_at = now w\<rparr>]\<rparr>)))"

definition delete_song :: "uuid option \<Rightarrow> uuid \<Rightarrow> world \<Rightarrow> unit response \<times> world" where
  "delete_song auth sid w =
     (if \<not> online w then (Failed NetworkError, sent Playlist Delete w)
      else (Data (),
            sent Playlist Delete
              (w\<lparr>playlist :=
                   filter (\<lambda>r. \<not> (song_id r = sid \<and> is_self auth (song_user_id r))) (playlist w)\<rparr>)))"

text \<open>The diary. The migration creates the table \<^verbatim>\<open>daily_diaries\<close>, with
  \<^verbatim>\<open>UNIQUE(user_id, date)\<close> and its policies. Diary.tsx sends each of its four requests to
  \<^verbatim>\<open>supabase.from('daily_diary')\<close>, and the backend answers a request to a relation that it
  does not have with an error, whatever the request asks for.\<close>

definition undefined_relation :: "table \<Rightarrow> verb \<Rightarrow> world \<Rightarrow> 'a response \<times> world" where
  "undefined_relation t v w =
     (if \<not> online w then (Failed NetworkError, sent t v w)
      else (Failed UndefinedTable, sent t v w))"

text \<open>\<^verbatim>\<open>.from('daily_diary').select('*').eq('user_id', uid).eq('date', day).maybeSingle()\<close>.\<close>

definition select_diary_of_day ::
  "uuid option \<Rightarrow> uuid \<Rightarrow> int \<Rightarrow> world \<Rightarrow> DailyDiary option response \<times> world" where
  "select_diary_of_day auth uid day w = undefined_relation Daily_Diary Select w"

text \<open>\<^verbatim>\<open>.from('daily_diary').select(...).order('date', { ascending: false }).limit(10)\<close>
  with a filter on the owner.\<close>

definition select_diary ::
  "uuid option \<Rightarrow> owner_filter \<Rightarrow> world \<Rightarrow> DailyDiary list response \<times> world" where
  "select_diary auth own w = undefined_relation Daily_Diary Select w"

text \<open>\<^verbatim>\<open>.from('daily_diary').insert([{ user_id, date, content, mood }])\<close>.\<close>

definition insert_diary ::
  "uuid option \<Rightarrow> uuid \<Rightarrow> int \<Rightarrow> string \<Rightarrow> mood \<Rightarrow> world \<Rightarrow> unit response \<times> world" where
  "insert_diary auth uid day text md w = undefined_relation Daily_Diary Insert w"

text \<open>\<^verbatim>\<open>.from('daily_diary').update({ content, mood }).eq('id', id)\<close>.\<close>

definition update_diary ::
  "uuid option \<Rightarrow> uuid \<Rightarrow> string \<Rightarrow> mood \<Rightarrow> world \<Rightarrow> unit response \<times> world" where
  "update_diary auth did text md w = undefined_relation Daily_Diary Update w"

text \<open>Policy "Users can create quotes for partner":
  \<^verbatim>\<open>WITH CHECK (user_id IN (SELECT partner_id FROM profiles WHERE id = auth.uid()))\<close>.\<close>

definition insert_quote :: "uuid option \<Rightarrow> uuid \<Rightarrow> string \<Rightarrow> world \<Rightarrow> unit response \<times> world" where
  "insert_quote auth uid text w =
     (if \<not> online w then (Failed NetworkError, sent Quotes Insert w)
      else if \<not> is_partner_of w auth uid then (Failed RlsViolation, sent Quotes Insert w)
      else if \<not> has_profile w uid then (Failed ForeignKeyViolation, sent Quotes Insert w)
      else (Data (),
            sent Quotes Insert
              (w\<lparr>quotes := quotes w @
                   [\<lparr>quote_id = fresh_uuid (map quote_id (quotes w)), quote_user_id = uid,
                     quote_text = text, quote_is_read = False, quote_created_at = now w\<rparr>]\<rparr>)))"

text \<open>Policy "Users can create messages".\<close>

definition insert_message :: "uuid option \<Rightarrow> uuid \<Rightarrow> string \<Rightarrow> world \<Rightarrow> unit response \<times> world" where
  "insert_message auth uid text w =
     (if \<not> online w then (Failed NetworkError, sent ChatMessages Insert w)
      else if \<not> is_self auth uid then (Failed RlsViolation, sent ChatMessages Insert w)
      else if \<not> has_profile w uid then (Failed ForeignKeyViolation, sent ChatMessages Insert w)
      else (Data (),
            sent ChatMessages Insert
              (w\<lparr>chat_messages := chat_messages w @
                   [\<lparr>message_id = fresh_uuid (map message_id (chat_messages w)), sender_id = uid,
                     message = text, message_is_read = False, sent_at = now w\<rparr>]\<rparr>)))"


subsection \<open>The session (contexts/AuthContext)\<close>

text \<open>What \<^verbatim>\<open>useAuth()\<close> hands to a page: the signed-in user (of which only the id is
  read), the own profile and the partner's profile. The client sends every request with the
  session of \<^verbatim>\<open>user\<close>, so \<^verbatim>\<open>auth.uid()\<close> is \<^verbatim>\<open>user.id\<close>.\<close>

record AuthContext =
  user :: "uuid option"
  profile :: "Profile option"
  partnerProfile :: "Profile option"

text \<open>\<^verbatim>\<open>x || null\<close> on a string.\<close>

definition or_null :: "string \<Rightarrow> string option" where
  "or_null x = (if x = [] then None else Some x)"

subsection \<open>Timeline.tsx\<close>

datatype audience = filter_all | filter_mine | filter_theirs

record Timeline =
  timeline_posts :: "Post list"
  timeline_filter :: audience
  newPost :: string
  timeline_selectedMood :: mood
  imageUrl :: string
  songLink :: string
  showPostForm :: bool
  timeline_loading :: bool
  timeline_reactions :: "(uuid \<times> Reaction list) list"

text \<open>The owner filter of \<^verbatim>\<open>loadPosts\<close>:
  \<^verbatim>\<open>if (filter === 'mine' && user) ... else if (filter === 'theirs' && partnerProfile) ...
  else if (user && partnerProfile) ...\<close>, and no filter when no branch is taken.\<close>

definition loadPosts_owner :: "AuthContext \<Rightarrow> audience \<Rightarrow> owner_filter" where
  "loadPosts_owner a f =
     (case (if f = filter_mine then user a else None) of
        Some u \<Rightarrow> Eq u
      | None \<Rightarrow>
         (case (if f = filter_theirs then partnerProfile a else None) of
            Some p \<Rightarrow> Eq (profile_id p)
          | None \<Rightarrow>
             (case (user a, partnerProfile a) of
                (Some u, Some p) \<Rightarrow> In [u, profile_id p]
              | _ \<Rightarrow> Unfiltered)))"

text \<open>The loop that fills \<^verbatim>\<open>reactionsByPost\<close>.\<close>

definition push_reaction :: "(uuid \<times> Reaction list) list \<Rightarrow> Reaction \<Rightarrow> (uuid \<times> Reaction list) list" where
  "push_reaction acc r =
     record_set acc (reaction_post_id r)
       ((case map_of acc (reaction_post_id r) of None \<Rightarrow> [] | Some rs \<Rightarrow> rs) @ [r])"

definition reactionsByPost :: "Reaction list \<Rightarrow> (uuid \<times> Reaction list) list" where
  "reactionsByPost rs = foldl push_reaction [] rs"

text \<open>\<^verbatim>\<open>loadPosts\<close>. A failed fetch of the posts throws to the \<^verbatim>\<open>catch\<close>, which writes to
  the console; \<^verbatim>\<open>finally\<close> clears \<^verbatim>\<open>loading\<close>. The error of the fetch of the reactions is
  not read: without data the loop runs over nothing.\<close>

definition loadPosts :: "AuthContext \<Rightarrow> Timeline \<Rightarrow> world \<Rightarrow> Timeline \<times> world" where
  "loadPosts a st w =
     (case select_posts (user a) (all_posts\<lparr>owner := loadPosts_owner a (timeline_filter st)\<rparr>) w of
        (Failed e, w1) \<Rightarrow>
          (st\<lparr>timeline_loading := False\<rparr>, console_error ''Error loading posts:'' e w1)
      | (Data rows, w1) \<Rightarrow>
          (case select_reactions (user a) (map post_id rows) w1 of
             (reactionsData, w2) \<Rightarrow>
               (st\<lparr>timeline_posts := rows,
                   timeline_reactions :=
                     reactionsByPost (case reactionsData of Data rs \<Rightarrow> rs | Failed e \<Rightarrow> []),
                   timeline_loading := False\<rparr>, w2)))"

definition handleSubmitPost :: "AuthContext \<Rightarrow> Timeline \<Rightarrow> world \<Rightarrow> Timeline \<times> world" where
  "handleSubmitPost a st w =
     (case user a of
        None \<Rightarrow> (st, w)
      | Some u \<Rightarrow>
          if blank (newPost st) then (st, w)
          else
            (case insert_post (user a) u (newPost st) (timeline_selectedMood st)
                    (or_null (imageUrl st)) (or_null (songLink st)) False w of
               (Failed e, w1) \<Rightarrow> (st, console_error ''Error creating post:'' e w1)
             | (Data x, w1) \<Rightarrow>
                 (st\<lparr>newPost := [], imageUrl := [], songLink := [], showPostForm := False\<rparr>, w1)))"





text \<open>The reactions of user \<open>u\<close> on post \<open>p\<close>, the constraint
  \<^verbatim>\<open>UNIQUE(post_id, user_id)\<close> and the primary key \<^verbatim>\<open>id\<close>.\<close>

definition my_reactions :: "world \<Rightarrow> uuid \<Rightarrow> uuid \<Rightarrow> Reaction list" where
  "my_reactions w p u = filter (\<lambda>r. reaction_post_id r = p \<and> reaction_user_id r = u) (reactions w)"

definition reactions_unique :: "world \<Rightarrow> bool" where
  "reactions_unique w = distinct (map (\<lambda>r. (reaction_post_id r, reaction_user_id r)) (reactions w))"

definition reactions_pkey :: "world \<Rightarrow> bool" where
  "reactions_pkey w = distinct (map reaction_id (reactions w))"



subsection \<open>Photos.tsx and Playlist.tsx\<close>

record Photos =
  photos_shown :: "Photo list"
  photos_loading :: bool
  photos_showAddForm :: bool
  photoUrl :: string
  photos_caption :: string
  photos_saving :: bool
  selectedPhoto :: "Photo option"

definition loadPhotos :: "AuthContext \<Rightarrow> Photos \<Rightarrow> world \<Rightarrow> Photos \<times> world" where
  "loadPhotos a st w =
     (case select_photos (user a) w of
        (Failed e, w1) \<Rightarrow>
          (st\<lparr>photos_loading := False\<rparr>, console_error ''Error loading photos:'' e w1)
      | (Data rows, w1) \<Rightarrow> (st\<lparr>photos_shown := rows, photos_loading := False\<rparr>, w1))"

definition handleAddPhoto :: "AuthContext \<Rightarrow> Photos \<Rightarrow> world \<Rightarrow> Photos \<times> world" where
  "handleAddPhoto a st w =
     (case user a of
        None \<Rightarrow> (st, w)
      | Some u \<Rightarrow>
          if blank (photoUrl st) then (st, w)
          else
            (case insert_photo (user a) u (photoUrl st) (or_null (photos_caption st)) w of
               (Failed e, w1) \<Rightarrow>
                 (st\<lparr>photos_saving := False\<rparr>, console_error ''Error adding photo:'' e w1)
             | (Data x, w1) \<Rightarrow>
                 (case loadPhotos a
                         (st\<lparr>photos_saving := True, photoUrl := [], photos_caption := [],
                             photos_showAddForm := False\<rparr>) w1 of
                    (st2, w2) \<Rightarrow> (st2\<lparr>photos_saving := False\<rparr>, w2))))"

text \<open>\<^verbatim>\<open>if (user?.id !== photoUserId) return;\<close> and then the request.\<close>

definition handleDeletePhoto ::
  "AuthContext \<Rightarrow> uuid \<Rightarrow> uuid \<Rightarrow> Photos \<Rightarrow> world \<Rightarrow> Photos \<times> world" where
  "handleDeletePhoto a photoId photoUserId st w =
     (if user a \<noteq> Some photoUserId then (st, w)
      else
        (case delete_photo (user a) photoId w of
           (Failed e, w1) \<Rightarrow> (st, console_error ''Error deleting photo:'' e w1)
         | (Data x, w1) \<Rightarrow> loadPhotos a st w1))"

record PlaylistPage =
  songs :: "PlaylistItem list"
  playlist_loading :: bool
  playlist_showAddForm :: bool
  songTitle :: string
  songUrl :: string
  playlist_saving :: bool

definition handleAddSong :: "AuthContext \<Rightarrow> PlaylistPage \<Rightarrow> world \<Rightarrow> PlaylistPage \<times> world" where
  "handleAddSong a st w =
     (case user a of
        None \<Rightarrow> (st, w)
      | Some u \<Rightarrow>
          if blank (songTitle st) \<or> blank (songUrl st) then (st, w)
          else
            (case insert_song (user a) u (songTitle st) (songUrl st) w of
               (Failed e, w1) \<Rightarrow>
                 (st\<lparr>playlist_saving := False\<rparr>, console_error ''Error adding song:'' e w1)
             | (Data x, w1) \<Rightarrow>
                 (st\<lparr>songTitle := [], songUrl := [], playlist_showAddForm := False,
                     playlist_saving := False\<rparr>, w1)))"

definition handleDeleteSong ::
  "AuthContext \<Rightarrow> uuid \<Rightarrow> uuid \<Rightarrow> PlaylistPage \<Rightarrow> world \<Rightarrow> PlaylistPage \<times> world" where
  "handleDeleteSong a songId songUserId st w =
     (if user a \<noteq> Some songUserId then (st, w)
      else
        (case delete_song (user a) songId w of
           (Failed e, w1) \<Rightarrow> (st, console_error ''Error deleting song:'' e w1)
         | (Data x, w1) \<Rightarrow> (st, w1)))"


subsection \<open>Diary.tsx\<close>

record Diary =
  entries :: "DailyDiary list"
  todayEntry :: "DailyDiary option"
  diary_content_input :: string
  diary_selectedMood :: mood
  diary_loading :: bool
  diary_saving :: bool

text \<open>\<^verbatim>\<open>new Date().toISOString().split('T')[0]\<close>, as a day number.\<close>

definition today :: "world \<Rightarrow> int" where
  "today w = toISOString_day (now w)"

text \<open>\<^verbatim>\<open>if (user && partnerProfile) ... else if (user) ...\<close> of \<^verbatim>\<open>loadDiaryEntries\<close>,
  past its guard \<^verbatim>\<open>if (!user) return\<close>.\<close>

definition loadDiaryEntries_owner :: "AuthContext \<Rightarrow> uuid \<Rightarrow> owner_filter" where
  "loadDiaryEntries_owner a u =
     (case partnerProfile a of Some p \<Rightarrow> In [u, profile_id p] | None \<Rightarrow> Eq u)"

text \<open>\<^verbatim>\<open>loadDiaryEntries\<close>. Only the data of the first request is read (null on failure);
  the error of the second is thrown to the \<^verbatim>\<open>catch\<close>.\<close>

definition loadDiaryEntries :: "AuthContext \<Rightarrow> Diary \<Rightarrow> world \<Rightarrow> Diary \<times> world" where
  "loadDiaryEntries a st w =
     (case user a of
        None \<Rightarrow> (st, w)
      | Some u \<Rightarrow>
          (case select_diary_of_day (user a) u (today w) w of
             (todayRes, w1) \<Rightarrow>
               (let todayData = (case todayRes of Data d \<Rightarrow> d | Failed e \<Rightarrow> None);
                    st1 = (case todayData of
                             None \<Rightarrow> st\<lparr>todayEntry := None\<rparr>
                           | Some r \<Rightarrow>
                               st\<lparr>todayEntry := Some r, diary_content_input := diary_content r,
                                   diary_selectedMood := diary_mood r\<rparr>)
                in (case select_diary (user a) (loadDiaryEntries_owner a u) w1 of
                      (Failed e, w2) \<Rightarrow>
                        (st1\<lparr>diary_loading := False\<rparr>, console_error ''Error loading diary:'' e w2)
                    | (Data rows, w2) \<Rightarrow> (st1\<lparr>entries := rows, diary_loading := False\<rparr>, w2)))))"

text \<open>\<^verbatim>\<open>handleSave\<close>: the update or insert, then (on success) the reload.\<close>

definition handleSave :: "AuthContext \<Rightarrow> Diary \<Rightarrow> world \<Rightarrow> Diary \<times> world" where
  "handleSave a st w =
     (case user a of
        None \<Rightarrow> (st, w)
      | Some u \<Rightarrow>
          if blank (diary_content_input st) then (st, w)
          else
            (case (case todayEntry st of
                     Some r \<Rightarrow> update_diary (user a) (diary_id r) (diary_content_input st)
                                 (diary_selectedMood st) w
                   | None \<Rightarrow> insert_diary (user a) u (today w) (diary_content_input st)
                               (diary_selectedMood st) w) of
               (Failed e, w1) \<Rightarrow>
                 (st\<lparr>diary_saving := False\<rparr>, console_error ''Error saving diary:'' e w1)
             | (Data x, w1) \<Rightarrow>
                 (case loadDiaryEntries a (st\<lparr>diary_saving := True\<rparr>) w1 of
                    (st2, w2) \<Rightarrow> (st2\<lparr>diary_saving := False\<rparr>, w2))))"

text \<open>The writer types a text, picks a mood and \<^verbatim>\<open>handleSave\<close> is called; and so on for
  each entry of the list.\<close>

fun saveDiary_all :: "AuthContext \<Rightarrow> (string \<times> mood) list \<Rightarrow> Diary \<Rightarrow> world \<Rightarrow> Diary \<times> world" where
  "saveDiary_all a [] st w = (st, w)"
| "saveDiary_all a ((text, md) # rest) st w =
     (case handleSave a (st\<lparr>diary_content_input := text, diary_selectedMood := md\<rparr>) w of
        (st', w') \<Rightarrow> saveDiary_all a rest st' w')"

text \<open>The entries of user \<open>u\<close> for a day in the table of the migration.\<close>

definition my_entries :: "world \<Rightarrow> uuid \<Rightarrow> int \<Rightarrow> DailyDiary list" where
  "my_entries w u day = filter (\<lambda>r. diary_user_id r = u \<and> diary_date r = day) (daily_diaries w)"

subsection \<open>Quotes.tsx and Chat.tsx\<close>

record QuotesPage =
  quotes_shown :: "Quote list"
  quotes_loading :: bool
  quotes_showAddForm :: bool
  quoteText :: string
  quotes_saving :: bool

definition handleAddQuote :: "AuthContext \<Rightarrow> QuotesPage \<Rightarrow> world \<Rightarrow> QuotesPage \<times> world" where
  "handleAddQuote a st w =
     (case user a of
        None \<Rightarrow> (st, w)
      | Some u \<Rightarrow>
          if blank (quoteText st) then (st, w)
          else
            (case insert_quote (user a) u (quoteText st) w of
               (Failed e, w1) \<Rightarrow>
                 (st\<lparr>quotes_saving := False\<rparr>, console_error ''Error adding quote:'' e w1)
             | (Data x, w1) \<Rightarrow>
                 (st\<lparr>quoteText := [], quotes_showAddForm := False, quotes_saving := False\<rparr>, w1)))"

record Chat =
  messages :: "ChatMessage list"
  newMessage :: string
  chat_loading :: bool

definition handleSendMessage :: "AuthContext \<Rightarrow> Chat \<Rightarrow> world \<Rightarrow> Chat \<times> world" where
  "handleSendMessage a st w =
     (case user a of
        None \<Rightarrow> (st, w)
      | Some u \<Rightarrow>
          if blank (newMessage st) then (st, w)
          else
            (case insert_message (user a) u (newMessage st) w of
               (Failed e, w1) \<Rightarrow> (st, console_error ''Error sending message:'' e w1)
             | (Data x, w1) \<Rightarrow> (st\<lparr>newMessage := []\<rparr>, w1)))"

subsection \<open>MemoryLane.tsx\<close>

datatype memory_filter = memories_all | memories_month | memories_happiest

record MemoryLane =
  memories :: "Post list"
  memories_loading :: bool
  memories_filter :: memory_filter

text \<open>The day that \<^verbatim>\<open>oneMonthAgoStr\<close> names:
  \<^verbatim>\<open>oneMonthAgo.setMonth(oneMonthAgo.getMonth() - 1)\<close> on a fresh \<^verbatim>\<open>new Date()\<close>, which
  steps the local month back, and then \<^verbatim>\<open>oneMonthAgo.toISOString().split('T')[0]\<close>, which
  names the day in UTC.\<close>

definition oneMonthAgo :: "(int \<Rightarrow> int) \<Rightarrow> Date \<Rightarrow> int" where
  "oneMonthAgo tza d = toISOString_day (setMonth tza d (monthIndex d - 1))"

text \<open>The query that \<^verbatim>\<open>loadMemories\<close> builds.\<close>

definition loadMemories_query ::
  "AuthContext \<Rightarrow> memory_filter \<Rightarrow> (int \<Rightarrow> int) \<Rightarrow> Date \<Rightarrow> posts_query" where
  "loadMemories_query a f tza d =
     (let own = (case (user a, partnerProfile a) of
                   (Some u, Some p) \<Rightarrow> In [u, profile_id p]
                 | _ \<Rightarrow> Unfiltered)
      in case f of
           memories_month \<Rightarrow>
             all_posts\<lparr>owner := own,
                       gte_created_at := Some (at_time (oneMonthAgo tza d) 0 0 0),
                       lte_created_at := Some (at_time (oneMonthAgo tza d) 23 59 59)\<rparr>
         | memories_happiest \<Rightarrow>
             all_posts\<lparr>owner := own, in_mood := Some [Happy, Love, Excited], limit := Some 20\<rparr>
         | memories_all \<Rightarrow> all_posts\<lparr>owner := own, limit := Some 50\<rparr>)"



text \<open>The number of days of the month before the local month of \<open>d\<close>.\<close>

definition daysInPreviousMonth :: "Date \<Rightarrow> int" where
  "daysInPreviousMonth d =
     (if monthIndex d = 0 then DaysInMonth (fullYear d - 1) 11
      else DaysInMonth (fullYear d) (monthIndex d - 1))"

subsection \<open>A small instance\<close>

text \<open>Two users, a date in a browser whose time zone is UTC, a few rows and the pages as
  \<^verbatim>\<open>useState\<close> initialises them, on which the handlers are run below.\<close>

definition alice :: uuid where "alice = 1"

definition bob :: uuid where "bob = 2"

definition march_15 :: Date where
  "march_15 = \<lparr>fullYear = 2025, monthIndex = 2, dayOfMonth = 15, timeInDay = 43200000\<rparr>"

text \<open>Half past seven in the evening of 15 November 2025, local time, and the local time
  zone adjustment of New York in 2025: daylight saving time, four hours behind UTC, from
  9 March (day 20156) to 2 November (day 20394), each at 2 o'clock local time, and five hours
  behind UTC otherwise.\<close>

definition november_15 :: Date where
  "november_15 = \<lparr>fullYear = 2025, monthIndex = 10, dayOfMonth = 15, timeInDay = 70200000\<rparr>"

definition new_york :: "int \<Rightarrow> int" where
  "new_york t =
     (if 20156 * msPerDay + 7200000 \<le> t \<and> t < 20394 * msPerDay + 7200000 then - 14400000
      else - 18000000)"

definition alice_profile :: "uuid option \<Rightarrow> Profile" where
  "alice_profile p = \<lparr>profile_id = alice, profile_name = ''Alice'', partner_id = p, profile_created_at = 0\<rparr>"

definition bob_profile :: "uuid option \<Rightarrow> Profile" where
  "bob_profile p = \<lparr>profile_id = bob, profile_name = ''Bob'', partner_id = p, profile_created_at = 0\<rparr>"

definition alice_post :: Post where
  "alice_post = \<lparr>post_id = 1, post_user_id = alice, post_content = ''hello'', post_mood = Happy,
                  image_url = None, song_link = None, is_miss_you = False, post_created_at = 1000\<rparr>"

text \<open>A post of Bob's from noon of 15 February 2025 (day 20134).\<close>

definition bob_post :: Post where
  "bob_post = \<lparr>post_id = 2, post_user_id = bob, post_content = ''a month ago'', post_mood = Love,
                image_url = None, song_link = None, is_miss_you = False,
                post_created_at = at_time 20134 12 0 0\<rparr>"

definition bob_photo :: Photo where
  "bob_photo = \<lparr>photo_id = 1, photo_user_id = bob, photo_url = ''https://example.com/b.jpg'',
                 caption = None, uploaded_at = 2000\<rparr>"

definition bob_song :: PlaylistItem where
  "bob_song = \<lparr>song_id = 1, song_user_id = bob, song_title = ''Song'', song_url = ''https://example.com/s'',
                added_at = 3000\<rparr>"

definition empty_world :: world where
  "empty_world = \<lparr>profiles = [], posts = [], reactions = [], photos = [], playlist = [],
                   daily_diaries = [], quotes = [], chat_messages = [], failures = [],
                   clock = march_15, LocalTZA = (\<lambda>t. 0), trace = []\<rparr>"

definition alice_alone :: world where
  "alice_alone = empty_world\<lparr>profiles := [alice_profile None], posts := [alice_post]\<rparr>"

definition couple :: world where
  "couple = empty_world\<lparr>profiles := [alice_profile (Some bob), bob_profile (Some alice)],
                         posts := [alice_post, bob_post], photos := [bob_photo], playlist := [bob_song]\<rparr>"

text \<open>The same couple after Alice has reacted with love to Bob's post, Bob with a hug to
  his own, and Alice with a smile to hers.\<close>

definition alice_love :: Reaction where
  "alice_love = \<lparr>reaction_id = 5, reaction_post_id = 2, reaction_user_id = alice,
                  reaction_type = love, reaction_created_at = 0\<rparr>"

definition bob_hug :: Reaction where
  "bob_hug = \<lparr>reaction_id = 6, reaction_post_id = 2, reaction_user_id = bob,
               reaction_type = hug, reaction_created_at = 0\<rparr>"

definition alice_smile :: Reaction where
  "alice_smile = \<lparr>reaction_id = 7, reaction_post_id = 1, reaction_user_id = alice,
                   reaction_type = smile, reaction_created_at = 0\<rparr>"

definition couple_reacted :: world where
  "couple_reacted = couple\<lparr>reactions := [alice_love, bob_hug, alice_smile]\<rparr>"

definition alice_single :: AuthContext where
  "alice_single = \<lparr>user = Some alice, profile = Some (alice_profile None), partnerProfile = None\<rparr>"

definition alice_linked :: AuthContext where
  "alice_linked = \<lparr>user = Some alice, profile = Some (alice_profile (Some bob)),
                    partnerProfile = Some (bob_profile (Some alice))\<rparr>"

definition initial_Timeline :: Timeline where
  "initial_Timeline = \<lparr>timeline_posts = [], timeline_filter = filter_all, newPost = [],
       timeline_selectedMood = Happy, imageUrl = [], songLink = [], showPostForm = False,
       timeline_loading = True, timeline_reactions = []\<rparr>"


definition initial_Photos :: Photos where
  "initial_Photos = \<lparr>photos_shown = [], photos_loading = True, photos_showAddForm = False,
       photoUrl = [], photos_caption = [], photos_saving = False, selectedPhoto = None\<rparr>"

definition initial_Playlist :: PlaylistPage where
  "initial_Playlist = \<lparr>songs = [], playlist_loading = True, playlist_showAddForm = False,
       songTitle = [], songUrl = [], playlist_saving = False\<rparr>"

definition initial_Quotes :: QuotesPage where
  "initial_Quotes = \<lparr>quotes_shown = [], quotes_loading = True, quotes_showAddForm = False,
       quoteText = [], quotes_saving = False\<rparr>"

definition initial_Chat :: Chat where
  "initial_Chat = \<lparr>messages = [], newMessage = [], chat_loading = True\<rparr>"

definition initial_Diary :: Diary where
  "initial_Diary = \<lparr>entries = [], todayEntry = None, diary_content_input = [],
       diary_selectedMood = Happy, diary_loading = True, diary_saving = False\<rparr>"

definition initial_MemoryLane :: MemoryLane where
  "initial_MemoryLane = \<lparr>memories = [], memories_loading = True, memories_filter = memories_all\<rparr>"

section \<open>Properties\<close>

subsection \<open>The mood histogram\<close>

lemma set_first_seen: "set (first_seen xs) = set xs"
  by (induction xs) auto

lemma distinct_first_seen: "distinct (first_seen xs)"
  by (induction xs) (auto simp: distinct_removeAll)

lemma first_seen_snoc:
  "first_seen (xs @ [x]) = (if x \<in> set xs then first_seen xs else first_seen xs @ [x])"
  by (induction xs) (auto simp: set_first_seen)

lemma map_of_keyed:
  "map_of (map (\<lambda>k. (k, f k)) ks) m = (if m \<in> set ks then Some (f m) else None)"
  by (induction ks) auto

lemma record_set_absent:
  "m \<notin> set ks \<Longrightarrow> record_set (map (\<lambda>k. (k, f k)) ks) m v = map (\<lambda>k. (k, f k)) ks @ [(m, v)]"
  by (induction ks) auto

lemma record_set_present:
  "m \<in> set ks \<Longrightarrow> distinct ks \<Longrightarrow>
   record_set (map (\<lambda>k. (k, f k)) ks) m v = map (\<lambda>k. (k, if k = m then v else f k)) ks"
  by (induction ks) auto

lemma tally_absent:
  "x \<notin> set ks \<Longrightarrow> tally (map (\<lambda>k. (k, f k)) ks) x = map (\<lambda>k. (k, f k)) ks @ [(x, 1)]"
  by (simp add: tally_def map_of_keyed record_set_absent)

lemma tally_present:
  "x \<in> set ks \<Longrightarrow> distinct ks \<Longrightarrow>
   tally (map (\<lambda>k. (k, f k)) ks) x = map (\<lambda>k. (k, if k = x then f x + 1 else f k)) ks"
  by (simp add: tally_def map_of_keyed record_set_present)

text \<open>The object that the \<^verbatim>\<open>forEach\<close> leaves behind: every mood of the input once, in the
  order of first occurrence, with the number of its occurrences.\<close>

lemma foldl_tally:
  "foldl tally [] ms = map (\<lambda>m. (m, count_list ms m)) (first_seen ms)"
proof (induction ms rule: rev_induct)
  case Nil
  show ?case by simp
next
  case (snoc x xs)
  show ?case
  proof (cases "x \<in> set xs")
    case True
    then have "x \<in> set (first_seen xs)" by (simp add: set_first_seen)
    then have "tally (foldl tally [] xs) x =
        map (\<lambda>k. (k, if k = x then count_list xs x + 1 else count_list xs k)) (first_seen xs)"
      by (simp add: snoc tally_present distinct_first_seen)
    then show ?thesis
      using True by (simp add: first_seen_snoc)
  next
    case False
    then have "x \<notin> set (first_seen xs)" by (simp add: set_first_seen)
    then have "tally (foldl tally [] xs) x =
        map (\<lambda>k. (k, count_list xs k)) (first_seen xs) @ [(x, 1)]"
      by (simp add: snoc tally_absent)
    then show ?thesis
      using False by (auto simp add: first_seen_snoc set_first_seen)
  qed
qed

lemma insert_by_count: "insert_by by_count_desc x ys = insort_key (\<lambda>s. - int (count s)) x ys"
  by (induction ys) (auto simp: by_count_desc_def)

lemma js_sort_by_count: "js_sort by_count_desc xs = sort_key (\<lambda>s. - int (count s)) xs"
  by (induction xs) (auto simp: js_sort_def sort_key_def insert_by_count)

lemma calculateMoodStats_eq:
  "calculateMoodStats moods = sort_key (\<lambda>s. - int (count s)) (map (mood_stat moods) (first_seen moods))"
  by (simp add: calculateMoodStats_def foldl_tally js_sort_by_count mood_stat_def [abs_def] comp_def)

lemma sum_list_insort_key: "sum_list (map g (insort_key f x xs)) = g x + sum_list (map g xs)"
  for g :: "'a \<Rightarrow> 'b::comm_monoid_add"
  by (induction xs) (auto simp: ac_simps)

lemma sum_list_sort_key: "sum_list (map g (sort_key f xs)) = sum_list (map g xs)"
  for g :: "'a \<Rightarrow> 'b::comm_monoid_add"
  by (induction xs) (auto simp: sum_list_insort_key)

lemma sum_count_first_seen: "sum_list (map (count_list ms) (first_seen ms)) = length ms"
proof -
  have "sum_list (map (count_list ms) (first_seen ms)) = sum (count_list ms) (set (first_seen ms))"
    by (rule sum_list_distinct_conv_sum_set) (rule distinct_first_seen)
  also have "\<dots> = length ms"
    by (simp add: set_first_seen sum_count_set)
  finally show ?thesis .
qed

lemma count_list_pos: "m \<in> set ms \<Longrightarrow> 0 < count_list ms m"
  by (metis count_list_0_iff gr0I)

lemma real_sum_list: "sum_list (map (\<lambda>m. real (f m)) xs) = real (sum_list (map f xs))"
  by (induction xs) simp_all

lemma sorted_calculateMoodStats:
  "sorted_wrt (\<lambda>a b. count b \<le> count a) (calculateMoodStats moods)"
proof -
  have "sorted (map (\<lambda>s. - int (count s)) (calculateMoodStats moods))"
    by (simp add: calculateMoodStats_eq)
  then show ?thesis by (simp add: sorted_map)
qed

lemma ties_calculateMoodStats:
  "map mood (filter (\<lambda>s. count s = k) (calculateMoodStats moods))
     = filter (\<lambda>m. count_list moods m = k) (first_seen moods)"
proof -
  have "filter (\<lambda>s. count s = k) (calculateMoodStats moods)
      = filter (\<lambda>s. - int (count s) = - int k) (calculateMoodStats moods)"
    by simp
  also have "\<dots> = filter (\<lambda>s. - int (count s) = - int k) (map (mood_stat moods) (first_seen moods))"
    unfolding calculateMoodStats_eq by (rule sort_key_stable)
  finally show ?thesis
    by (simp add: filter_map comp_def mood_stat_def)
qed

lemma percentage_calculateMoodStats:
  "s \<in> set (calculateMoodStats moods) \<Longrightarrow>
     count s = count_list moods (mood s) \<and>
     percentage s = real (count s) / real (length moods) * 100"
  by (auto simp: calculateMoodStats_eq mood_stat_def)

lemma sum_percentage_calculateMoodStats:
  assumes "moods \<noteq> []"
  shows "sum_list (map percentage (calculateMoodStats moods)) = 100"
proof -
  have "sum_list (map percentage (calculateMoodStats moods))
      = sum_list (map (\<lambda>m. real (count_list moods m) * (100 / real (length moods))) (first_seen moods))"
    using assms by (simp add: calculateMoodStats_eq sum_list_sort_key comp_def mood_stat_def)
  also have "\<dots> = sum_list (map (\<lambda>m. real (count_list moods m)) (first_seen moods)) * (100 / real (length moods))"
    by (rule sum_list_mult_const)
  also have "sum_list (map (\<lambda>m. real (count_list moods m)) (first_seen moods))
      = real (sum_list (map (count_list moods) (first_seen moods)))"
    by (rule real_sum_list)
  finally show ?thesis
    using assms by (simp add: sum_count_first_seen)
qed

lemma calculateMoodStats_example:
  "calculateMoodStats [Sad, Happy, Sad, Love, Happy] =
     [\<lparr>mood = Sad, count = 2, percentage = 40\<rparr>,
      \<lparr>mood = Happy, count = 2, percentage = 40\<rparr>,
      \<lparr>mood = Love, count = 1, percentage = 20\<rparr>]"
  by (simp add: calculateMoodStats_def tally_def js_sort_def by_count_desc_def)

text \<open>
  C5. For every sequence of moods, \<^verbatim>\<open>calculateMoodStats\<close> returns records sorted by count,
  largest first; records of equal count stand in the order in which their moods are first met
  in the input; every record carries the number of occurrences of its mood and the percentage
  count / total * 100; for a non-empty input the percentages add up to 100 (exactly so in the
  real numbers, of which the program computes the nearest doubles); and the empty input gives
  the empty sequence.
\<close>

theorem calculateMoodStats_histogram:
  "sorted_wrt (\<lambda>a b. count b \<le> count a) (calculateMoodStats moods)
   \<and> (\<forall>k. map mood (filter (\<lambda>s. count s = k) (calculateMoodStats moods))
            = filter (\<lambda>m. count_list moods m = k) (first_seen moods))
   \<and> (\<forall>s \<in> set (calculateMoodStats moods).
         count s = count_list moods (mood s)
         \<and> percentage s = real (count s) / real (length moods) * 100)
   \<and> (moods \<noteq> [] \<longrightarrow> sum_list (map percentage (calculateMoodStats moods)) = 100)
   \<and> calculateMoodStats [] = []"
  using sorted_calculateMoodStats ties_calculateMoodStats percentage_calculateMoodStats
    sum_percentage_calculateMoodStats
  by (simp add: calculateMoodStats_def js_sort_def)

theorem calculateMoodStats_histogram_witness:
  "[Sad, Happy, Sad, Love, Happy] \<noteq> []
   \<and> \<lparr>mood = Happy, count = 2, percentage = 40\<rparr> \<in> set (calculateMoodStats [Sad, Happy, Sad, Love, Happy])
   \<and> (2::nat) = count_list [Sad, Happy, Sad, Love, Happy] Happy
   \<and> (40::real) = real 2 / real (length [Sad, Happy, Sad, Love, Happy]) * 100
   \<and> sum_list (map percentage (calculateMoodStats [Sad, Happy, Sad, Love, Happy])) = 100
   \<and> map mood (filter (\<lambda>s. count s = 2) (calculateMoodStats [Sad, Happy, Sad, Love, Happy])) = [Sad, Happy]"
  using calculateMoodStats_histogram [of "[Sad, Happy, Sad, Love, Happy]"]
  by (simp add: calculateMoodStats_example)

text \<open>
  C10. For every sequence of moods, every record of the histogram has a count of at least 1
  and a mood of the input (a mood that does not occur has no record), and the counts add up to
  the length of the input.
\<close>

theorem calculateMoodStats_counts:
  "(\<forall>s \<in> set (calculateMoodStats moods). 1 \<le> count s \<and> mood s \<in> set moods)
   \<and> (\<forall>m. m \<notin> set moods \<longrightarrow> m \<notin> mood ` set (calculateMoodStats moods))
   \<and> sum_list (map count (calculateMoodStats moods)) = length moods"
proof (intro conjI)
  show "\<forall>s \<in> set (calculateMoodStats moods). 1 \<le> count s \<and> mood s \<in> set moods"
    by (auto simp: calculateMoodStats_eq mood_stat_def set_first_seen Suc_le_eq count_list_pos)
  show "\<forall>m. m \<notin> set moods \<longrightarrow> m \<notin> mood ` set (calculateMoodStats moods)"
    by (auto simp: calculateMoodStats_eq mood_stat_def set_first_seen)
  show "sum_list (map count (calculateMoodStats moods)) = length moods"
    by (simp add: calculateMoodStats_eq sum_list_sort_key comp_def mood_stat_def sum_count_first_seen)
qed

theorem calculateMoodStats_counts_witness:
  "\<lparr>mood = Love, count = 1, percentage = 20\<rparr> \<in> set (calculateMoodStats [Sad, Happy, Sad, Love, Happy])
   \<and> 1 \<le> count \<lparr>mood = Love, count = 1, percentage = 20\<rparr>
   \<and> Tired \<notin> set [Sad, Happy, Sad, Love, Happy]
   \<and> Tired \<notin> mood ` set (calculateMoodStats [Sad, Happy, Sad, Love, Happy])
   \<and> sum_list (map count (calculateMoodStats [Sad, Happy, Sad, Love, Happy])) = 5"
  using calculateMoodStats_counts [of "[Sad, Happy, Sad, Love, Happy]"]
  by (simp add: calculateMoodStats_example)


subsection \<open>The instance\<close>

lemmas instance_defs = alice_def bob_def march_15_def alice_profile_def bob_profile_def alice_post_def
  bob_post_def alice_love_def bob_hug_def alice_smile_def couple_reacted_def bob_photo_def bob_song_def empty_world_def alice_alone_def couple_def alice_single_def
  alice_linked_def initial_Timeline_def initial_Photos_def initial_Playlist_def initial_Quotes_def
  initial_Chat_def initial_Diary_def initial_MemoryLane_def

subsection \<open>Creating rows\<close>

text \<open>\<^verbatim>\<open>!s.trim()\<close> holds of exactly the strings that are empty or consist of white space.\<close>

lemma blank_iff: "blank s \<longleftrightarrow> (\<forall>c \<in> set s. is_space c)"
proof
  assume "blank s"
  then have "\<forall>c \<in> set (dropWhile is_space s). is_space c"
    by (simp add: blank_def trim_def dropWhile_eq_Nil_conv)
  then have "dropWhile is_space s = []"
    by (metis hd_dropWhile hd_in_set)
  then show "\<forall>c \<in> set s. is_space c"
    by (simp add: dropWhile_eq_Nil_conv)
next
  assume "\<forall>c \<in> set s. is_space c"
  then have empty: "dropWhile is_space s = []" by (simp add: dropWhile_eq_Nil_conv)
  show "blank s" unfolding blank_def trim_def empty by simp
qed

text \<open>
  C7, as the code has it. For each of the five create operations (post, song, photo, quote,
  chat message), a call whose required field is empty or white space only (for a song: the
  title or the url) returns at the guard: the page and the world are as before, so no row is
  inserted, no request is sent, and nothing is reported, neither on the console nor on the
  page.
\<close>

theorem create_blank_noop:
  "((\<forall>c \<in> set (newPost tp). is_space c) \<longrightarrow> handleSubmitPost a tp w = (tp, w))
   \<and> ((\<forall>c \<in> set (songTitle pl). is_space c) \<or> (\<forall>c \<in> set (songUrl pl). is_space c)
        \<longrightarrow> handleAddSong a pl w = (pl, w))
   \<and> ((\<forall>c \<in> set (photoUrl ph). is_space c) \<longrightarrow> handleAddPhoto a ph w = (ph, w))
   \<and> ((\<forall>c \<in> set (quoteText qp). is_space c) \<longrightarrow> handleAddQuote a qp w = (qp, w))
   \<and> ((\<forall>c \<in> set (newMessage ch). is_space c) \<longrightarrow> handleSendMessage a ch w = (ch, w))"
  by (simp add: blank_iff [symmetric] handleSubmitPost_def handleAddSong_def handleAddPhoto_def
      handleAddQuote_def handleSendMessage_def split: option.split)

theorem create_blank_noop_witness:
  "list_all is_space ''  ''
   \<and> handleSubmitPost alice_single (initial_Timeline\<lparr>newPost := ''  ''\<rparr>) alice_alone
       = (initial_Timeline\<lparr>newPost := ''  ''\<rparr>, alice_alone)
   \<and> handleAddSong alice_single (initial_Playlist\<lparr>songTitle := ''Song'', songUrl := ''  ''\<rparr>) alice_alone
       = (initial_Playlist\<lparr>songTitle := ''Song'', songUrl := ''  ''\<rparr>, alice_alone)
   \<and> handleAddPhoto alice_single (initial_Photos\<lparr>photoUrl := ''  ''\<rparr>) alice_alone
       = (initial_Photos\<lparr>photoUrl := ''  ''\<rparr>, alice_alone)
   \<and> handleAddQuote alice_single (initial_Quotes\<lparr>quoteText := ''  ''\<rparr>) alice_alone
       = (initial_Quotes\<lparr>quoteText := ''  ''\<rparr>, alice_alone)
   \<and> handleSendMessage alice_single (initial_Chat\<lparr>newMessage := ''  ''\<rparr>) alice_alone
       = (initial_Chat\<lparr>newMessage := ''  ''\<rparr>, alice_alone)"
  using create_blank_noop [where tp = "initial_Timeline\<lparr>newPost := ''  ''\<rparr>"
      and pl = "initial_Playlist\<lparr>songTitle := ''Song'', songUrl := ''  ''\<rparr>"
      and ph = "initial_Photos\<lparr>photoUrl := ''  ''\<rparr>"
      and qp = "initial_Quotes\<lparr>quoteText := ''  ''\<rparr>"
      and ch = "initial_Chat\<lparr>newMessage := ''  ''\<rparr>"
      and a = alice_single and w = alice_alone]
  by (simp add: is_space_def)

text \<open>
  C7, as the claim has it, fails: submitting a post of two spaces reports no error at all.
  The console stays empty and the page is as it was.
\<close>

theorem create_blank_counterexample:
  "\<not> (\<exists>msg e. ConsoleError msg e
          \<in> set (trace (snd (handleSubmitPost alice_single (initial_Timeline\<lparr>newPost := ''  ''\<rparr>) alice_alone))))
   \<and> fst (handleSubmitPost alice_single (initial_Timeline\<lparr>newPost := ''  ''\<rparr>) alice_alone)
       = initial_Timeline\<lparr>newPost := ''  ''\<rparr>"
  by (simp add: handleSubmitPost_def blank_def trim_def is_space_def instance_defs)

text \<open>The policy "Users can create quotes for partner" accepts a row exactly when its
  \<^verbatim>\<open>user_id\<close> is the partner of the session's user.\<close>

lemma insert_quote_accepts:
  "(fst (insert_quote auth uid text w) = Data ())
     = (online w \<and> is_partner_of w auth uid \<and> has_profile w uid)"
  by (simp add: insert_quote_def)

text \<open>
  C1. \<^verbatim>\<open>handleAddQuote\<close> sends \<^verbatim>\<open>user_id: user.id\<close>: whatever row it creates carries the
  id of the caller, not that of the caller's partner. For Alice, whose partner is Bob, the
  insert policy rejects that row: the page writes the error to the console and the table of
  quotes stays empty.
\<close>

theorem handleAddQuote_own_id:
  "(quotes (snd (handleAddQuote a st w)) = quotes w
      \<or> (\<exists>q. quotes (snd (handleAddQuote a st w)) = quotes w @ [q] \<and> user a = Some (quote_user_id q)))
   \<and> handleAddQuote alice_linked (initial_Quotes\<lparr>quoteText := ''for you''\<rparr>) couple
       = (initial_Quotes\<lparr>quoteText := ''for you''\<rparr>,
          couple\<lparr>trace := [Request Quotes Insert, ConsoleError ''Error adding quote:'' RlsViolation]\<rparr>)
   \<and> quotes (snd (handleAddQuote alice_linked (initial_Quotes\<lparr>quoteText := ''for you''\<rparr>) couple)) = []"
proof (intro conjI)
  show "quotes (snd (handleAddQuote a st w)) = quotes w
      \<or> (\<exists>q. quotes (snd (handleAddQuote a st w)) = quotes w @ [q] \<and> user a = Some (quote_user_id q))"
    by (simp add: handleAddQuote_def insert_quote_def sent_def console_error_def split: option.split)
  show "handleAddQuote alice_linked (initial_Quotes\<lparr>quoteText := ''for you''\<rparr>) couple
       = (initial_Quotes\<lparr>quoteText := ''for you''\<rparr>,
          couple\<lparr>trace := [Request Quotes Insert, ConsoleError ''Error adding quote:'' RlsViolation]\<rparr>)"
    by (simp add: handleAddQuote_def insert_quote_def online_def sent_def console_error_def
        blank_def trim_def is_space_def is_partner_of_def instance_defs)
  then show "quotes (snd (handleAddQuote alice_linked (initial_Quotes\<lparr>quoteText := ''for you''\<rparr>) couple)) = []"
    by (simp add: couple_def empty_world_def)
qed

subsection \<open>Deleting rows\<close>

text \<open>
  C9. A call to delete a photo (or a song) of another owner, with the row's id and owner as
  the page passes them, returns at the guard: page and world are as before, so no request is
  sent and nothing is written to the console. And whatever arguments the handler is called
  with, a row that the caller does not own is still in the table afterwards.
\<close>

theorem delete_not_owner_noop:
  "(\<forall>r \<in> set (photos w). user a \<noteq> Some (photo_user_id r) \<longrightarrow>
       handleDeletePhoto a (photo_id r) (photo_user_id r) st w = (st, w)
       \<and> (\<forall>pid puid. r \<in> set (photos (snd (handleDeletePhoto a pid puid st w)))))
   \<and> (\<forall>r \<in> set (playlist w). user a \<noteq> Some (song_user_id r) \<longrightarrow>
       handleDeleteSong a (song_id r) (song_user_id r) pl w = (pl, w)
       \<and> (\<forall>sid suid. r \<in> set (playlist (snd (handleDeleteSong a sid suid pl w)))))"
  by (auto simp: handleDeletePhoto_def handleDeleteSong_def delete_photo_def delete_song_def
      loadPhotos_def select_photos_def sent_def console_error_def is_self_def)

theorem delete_not_owner_noop_witness:
  "bob_photo \<in> set (photos couple) \<and> user alice_linked \<noteq> Some (photo_user_id bob_photo)
   \<and> handleDeletePhoto alice_linked (photo_id bob_photo) (photo_user_id bob_photo) initial_Photos couple
       = (initial_Photos, couple)
   \<and> bob_photo \<in> set (photos (snd (handleDeletePhoto alice_linked (photo_id bob_photo) alice initial_Photos couple)))
   \<and> bob_song \<in> set (playlist couple) \<and> user alice_linked \<noteq> Some (song_user_id bob_song)
   \<and> handleDeleteSong alice_linked (song_id bob_song) (song_user_id bob_song) initial_Playlist couple
       = (initial_Playlist, couple)
   \<and> bob_song \<in> set (playlist (snd (handleDeleteSong alice_linked (song_id bob_song) alice initial_Playlist couple)))"
  using delete_not_owner_noop [of couple alice_linked initial_Photos initial_Playlist]
  by (simp add: couple_def empty_world_def alice_linked_def bob_photo_def bob_song_def alice_def bob_def)

subsection \<open>Loading the timeline\<close>

text \<open>
  C2. With the filter \<^verbatim>\<open>'theirs'\<close> and no partner profile, no branch of \<^verbatim>\<open>loadPosts\<close>
  sets an owner filter: the query goes out unfiltered. Alice, who has no partner, then sees
  her own post under "Theirs".
\<close>

theorem loadPosts_theirs_without_partner:
  "loadPosts_owner \<lparr>user = u, profile = p, partnerProfile = None\<rparr> filter_theirs = Unfiltered
   \<and> timeline_posts (fst (loadPosts alice_single (initial_Timeline\<lparr>timeline_filter := filter_theirs\<rparr>) alice_alone))
       = [alice_post]"
  by (simp add: loadPosts_owner_def loadPosts_def select_posts_def select_reactions_def online_def
      posts_rows_def all_posts_def limited_def post_matches_def posts_visible_def is_self_def sent_def
      instance_defs split: option.split)




subsection \<open>Memory Lane and the calendar\<close>

lemma div_pred:
  fixes a n :: int
  assumes "0 < n"
  shows "a div n = (a - 1) div n + (if a mod n = 0 then 1 else 0)"
proof (cases "a mod n = 0")
  case True
  have "n * (a div n) + a mod n = a" by (rule mult_div_mod_eq)
  with True have "a - 1 = n * (a div n - 1) + (n - 1)" by (simp add: algebra_simps)
  then have "(a - 1) div n = a div n - 1"
    by (rule int_div_pos_eq) (use assms in simp_all)
  with True show ?thesis by simp
next
  case False
  have "0 \<le> a mod n" "a mod n < n" using assms by simp_all
  with False have r: "0 \<le> a mod n - 1" "a mod n - 1 < n" by simp_all
  have "n * (a div n) + a mod n = a" by (rule mult_div_mod_eq)
  then have "a - 1 = n * (a div n) + (a mod n - 1)" by simp
  then have "(a - 1) div n = a div n"
    using r by (rule int_div_pos_eq)
  with False show ?thesis by simp
qed

lemma mod_shift: "(y - n * k) mod n = y mod n" for y :: int
  using mod_mult_self2 [of y n "- k"] by simp

lemma div4_step: "(y - 1968) div 4 = (y - 1969) div 4 + (if y mod 4 = 0 then 1 else 0)" for y :: int
  using div_pred [of 4 "y - 1968"] mod_shift [of y 4 492] by simp

lemma div100_step: "(y - 1900) div 100 = (y - 1901) div 100 + (if y mod 100 = 0 then 1 else 0)" for y :: int
  using div_pred [of 100 "y - 1900"] mod_shift [of y 100 19] by simp

lemma div400_step: "(y - 1600) div 400 = (y - 1601) div 400 + (if y mod 400 = 0 then 1 else 0)" for y :: int
  using div_pred [of 400 "y - 1600"] mod_shift [of y 400 4] by simp

lemma mod_100_4: "y mod 100 = 0 \<Longrightarrow> y mod 4 = 0" for y :: int
proof -
  assume "y mod 100 = 0"
  then have "100 dvd y" by (simp add: dvd_eq_mod_eq_0)
  moreover have "(4::int) dvd 100" by simp
  ultimately have "4 dvd y" by (rule dvd_trans [rotated])
  then show ?thesis by (simp add: dvd_eq_mod_eq_0)
qed

lemma mod_400_100: "y mod 400 = 0 \<Longrightarrow> y mod 100 = 0" for y :: int
proof -
  assume "y mod 400 = 0"
  then have "400 dvd y" by (simp add: dvd_eq_mod_eq_0)
  moreover have "(100::int) dvd 400" by simp
  ultimately have "100 dvd y" by (rule dvd_trans [rotated])
  then show ?thesis by (simp add: dvd_eq_mod_eq_0)
qed

lemma DayFromYear_step: "DayFromYear (y + 1) = DayFromYear y + DaysInYear y"
proof -
  have "DayFromYear (y + 1)
      = 365 * (y - 1969) + (y - 1968) div 4 - (y - 1900) div 100 + (y - 1600) div 400"
    by (simp add: DayFromYear_def)
  also have "\<dots> = DayFromYear y + 365 + (if y mod 4 = 0 then 1 else 0)
      - (if y mod 100 = 0 then 1 else 0) + (if y mod 400 = 0 then 1 else 0)"
    unfolding div4_step div100_step div400_step DayFromYear_def by (simp add: algebra_simps)
  also have "\<dots> = DayFromYear y + DaysInYear y"
    using mod_100_4 [of y] mod_400_100 [of y] by (auto simp: DaysInYear_def)
  finally show ?thesis .
qed

lemma DayOfMonthStart_step:
  "0 \<le> m \<Longrightarrow> DayOfMonthStart y (m + 1) = DayOfMonthStart y m + DaysInMonth y m"
proof -
  assume "0 \<le> m"
  then have "nat (m + 1) = Suc (nat m)" by simp
  then show ?thesis
    using \<open>0 \<le> m\<close> by (simp add: DayOfMonthStart_def)
qed

lemma DayOfMonthStart_december: "DayOfMonthStart y 11 + 31 = DaysInYear y"
proof -
  have "[0..<nat 11] = [0, 1, 2, 3, 4, 5, 6, 7, 8, 9, 10]"
    by (simp add: upt_rec)
  then show ?thesis
    by (simp add: DayOfMonthStart_def DaysInMonth_def)
qed

text \<open>Stepping the month back by one moves the local day back by the length of the month
  before.\<close>

lemma MakeDay_month_back:
  assumes "valid_Date d"
  shows "MakeDay (fullYear d) (monthIndex d - 1) (dayOfMonth d) = dayNumber d - daysInPreviousMonth d"
proof (cases "monthIndex d = 0")
  case True
  have "DayFromYear (fullYear d) = DayFromYear (fullYear d - 1) + DaysInYear (fullYear d - 1)"
    using DayFromYear_step [of "fullYear d - 1"] by simp
  then show ?thesis
    using True DayOfMonthStart_december [of "fullYear d - 1"]
    by (simp add: dayNumber_def MakeDay_def daysInPreviousMonth_def
        DayOfMonthStart_def DaysInMonth_def Let_def)
next
  case False
  with assms have m: "1 \<le> monthIndex d" "monthIndex d < 12"
    by (auto simp: valid_Date_def)
  then have "DayOfMonthStart (fullYear d) (monthIndex d)
      = DayOfMonthStart (fullYear d) (monthIndex d - 1) + DaysInMonth (fullYear d) (monthIndex d - 1)"
    using DayOfMonthStart_step [of "monthIndex d - 1" "fullYear d"] by simp
  then show ?thesis
    using False m
    by (simp add: dayNumber_def MakeDay_def daysInPreviousMonth_def Let_def)
qed

lemma oneMonthAgo_days:
  assumes "valid_Date d"
  shows "oneMonthAgo tza d
           = Day (UTC tza ((dayNumber d - daysInPreviousMonth d) * msPerDay + timeInDay d))"
  by (simp add: oneMonthAgo_def toISOString_day_def setMonth_def MakeDay_month_back [OF assms])

text \<open>The instance: noon of 15 March 2025 in UTC; and half past seven in the evening of
  15 November 2025 in New York, where local time is four hours behind UTC from 9 March,
  2 o'clock, to 2 November, 2 o'clock, and five hours otherwise.\<close>

lemma dayNumber_march_15: "dayNumber march_15 = 20162"
  by (simp add: dayNumber_def MakeDay_def DayFromYear_def DayOfMonthStart_def DaysInMonth_def
      DaysInYear_def march_15_def upt_rec)

lemma oneMonthAgo_march_15: "oneMonthAgo (\<lambda>t. 0) march_15 = 20134"
  by (simp add: oneMonthAgo_def toISOString_day_def setMonth_def UTC_def Day_def msPerDay_def
      MakeDay_def DayFromYear_def DayOfMonthStart_def DaysInMonth_def DaysInYear_def march_15_def
      upt_rec)

lemma valid_march_15: "valid_Date march_15"
  by (simp add: valid_Date_def march_15_def DaysInMonth_def msPerDay_def)

lemma dayNumber_november_15: "dayNumber november_15 = 20407"
  by (simp add: dayNumber_def MakeDay_def DayFromYear_def DayOfMonthStart_def DaysInMonth_def
      DaysInYear_def november_15_def upt_rec)

lemma oneMonthAgo_november_15: "oneMonthAgo new_york november_15 = 20376"
  by (simp add: oneMonthAgo_def toISOString_day_def setMonth_def UTC_def Day_def msPerDay_def
      new_york_def MakeDay_def DayFromYear_def DayOfMonthStart_def DaysInMonth_def DaysInYear_def
      november_15_def upt_rec)

lemma valid_november_15: "valid_Date november_15"
  by (simp add: valid_Date_def november_15_def DaysInMonth_def msPerDay_def)

text \<open>
  C8, as the code has it. The "month" filter of Memory Lane asks for the posts of one single
  day, from 00:00:00 to 23:59:59 of it, not of a month. That day is the day in UTC of the
  instant that \<^verbatim>\<open>setMonth(getMonth() - 1)\<close> yields: the local date moved back by the length
  of the month before the current local month, at the same local time.
\<close>

theorem loadMemories_month_window:
  assumes "valid_Date d"
  shows "gte_created_at (loadMemories_query a memories_month tza d)
           = Some (at_time (oneMonthAgo tza d) 0 0 0)
       \<and> lte_created_at (loadMemories_query a memories_month tza d)
           = Some (at_time (oneMonthAgo tza d) 23 59 59)
       \<and> (\<forall>r \<in> set (posts_rows auth (loadMemories_query a memories_month tza d) w).
             at_time (oneMonthAgo tza d) 0 0 0 \<le> post_created_at r
             \<and> post_created_at r \<le> at_time (oneMonthAgo tza d) 23 59 59)
       \<and> at_time (oneMonthAgo tza d) 23 59 59 - at_time (oneMonthAgo tza d) 0 0 0 < msPerDay
       \<and> oneMonthAgo tza d
           = Day (UTC tza ((dayNumber d - daysInPreviousMonth d) * msPerDay + timeInDay d))"
proof -
  have bounds: "gte_created_at (loadMemories_query a memories_month tza d)
           = Some (at_time (oneMonthAgo tza d) 0 0 0)"
       "lte_created_at (loadMemories_query a memories_month tza d)
           = Some (at_time (oneMonthAgo tza d) 23 59 59)"
    by (simp_all add: loadMemories_query_def all_posts_def Let_def)
  have "limit (loadMemories_query a memories_month tza d) = None"
    by (simp add: loadMemories_query_def all_posts_def Let_def)
  then have rows: "\<forall>r \<in> set (posts_rows auth (loadMemories_query a memories_month tza d) w).
             at_time (oneMonthAgo tza d) 0 0 0 \<le> post_created_at r
             \<and> post_created_at r \<le> at_time (oneMonthAgo tza d) 23 59 59"
    by (simp add: posts_rows_def limited_def post_matches_def bounds)
  have "at_time (oneMonthAgo tza d) 23 59 59 - at_time (oneMonthAgo tza d) 0 0 0 < msPerDay"
    by (simp add: at_time_def msPerDay_def)
  then show ?thesis
    using bounds rows oneMonthAgo_days [OF assms, of tza] by simp
qed

lemma posts_rows_march_15:
  "posts_rows (Some alice) (loadMemories_query alice_linked memories_month (\<lambda>t. 0) march_15) couple
     = [bob_post]"
  by (simp add: posts_rows_def limited_def post_matches_def posts_visible_def is_self_def
      is_partner_of_def loadMemories_query_def all_posts_def Let_def oneMonthAgo_march_15
      at_time_def msPerDay_def alice_def bob_def alice_profile_def bob_profile_def alice_post_def
      bob_post_def empty_world_def couple_def alice_linked_def)

theorem loadMemories_month_window_witness:
  "valid_Date march_15
   \<and> gte_created_at (loadMemories_query alice_linked memories_month (\<lambda>t. 0) march_15)
        = Some (at_time 20134 0 0 0)
   \<and> lte_created_at (loadMemories_query alice_linked memories_month (\<lambda>t. 0) march_15)
        = Some (at_time 20134 23 59 59)
   \<and> bob_post \<in> set (posts_rows (Some alice)
                        (loadMemories_query alice_linked memories_month (\<lambda>t. 0) march_15) couple)
   \<and> at_time 20134 0 0 0 \<le> post_created_at bob_post
   \<and> post_created_at bob_post \<le> at_time 20134 23 59 59
   \<and> 20134 = Day (UTC (\<lambda>t. 0) ((20162 - 28) * msPerDay + timeInDay march_15))
   \<and> valid_Date november_15
   \<and> gte_created_at (loadMemories_query alice_linked memories_month new_york november_15)
        = Some (at_time 20376 0 0 0)
   \<and> lte_created_at (loadMemories_query alice_linked memories_month new_york november_15)
        = Some (at_time 20376 23 59 59)
   \<and> 20376 = Day (UTC new_york ((20407 - 31) * msPerDay + timeInDay november_15))
   \<and> Day (getTime new_york november_15) = 20408"
proof -
  have prev: "daysInPreviousMonth march_15 = 28" "daysInPreviousMonth november_15 = 31"
    by (simp_all add: daysInPreviousMonth_def march_15_def november_15_def DaysInMonth_def
        DaysInYear_def)
  have time: "timeInDay november_15 = 70200000" by (simp add: november_15_def)
  have today: "Day (getTime new_york november_15) = 20408"
    by (simp add: getTime_def dayNumber_november_15 time UTC_def Day_def new_york_def msPerDay_def)
  show ?thesis
    using loadMemories_month_window [OF valid_march_15, of alice_linked "\<lambda>t. 0" "Some alice" couple]
      loadMemories_month_window [OF valid_november_15, of alice_linked new_york "Some alice" couple]
    by (simp add: valid_march_15 valid_november_15 dayNumber_march_15 dayNumber_november_15
        oneMonthAgo_march_15 oneMonthAgo_november_15 posts_rows_march_15 prev today)
qed

text \<open>
  C8, as the claim has it, fails: on 15 March 2025, in a browser whose time zone is UTC, the
  window does not start 30 days back (it is 15 February, 28 days back).
\<close>

theorem loadMemories_month_window_counterexample:
  "gte_created_at (loadMemories_query alice_linked memories_month (LocalTZA couple) (clock couple))
     \<noteq> Some (at_time (today couple - 30) 0 0 0)"
proof -
  have couple: "LocalTZA couple = (\<lambda>t. 0)" "clock couple = march_15"
    by (simp_all add: couple_def empty_world_def)
  have "timeInDay march_15 = 43200000" by (simp add: march_15_def)
  then have "today couple = 20162"
    by (simp add: today_def toISOString_day_def now_def getTime_def couple dayNumber_march_15
        UTC_def Day_def msPerDay_def)
  then show ?thesis
    by (simp add: loadMemories_query_def all_posts_def Let_def couple oneMonthAgo_march_15
        at_time_def msPerDay_def)
qed

subsection \<open>The diary\<close>

text \<open>No request of the diary page reaches the table of the migration: whatever
  \<^verbatim>\<open>loadDiaryEntries\<close> and \<^verbatim>\<open>handleSave\<close> do, the table is as before.\<close>

lemma loadDiaryEntries_table: "daily_diaries (snd (loadDiaryEntries a st w)) = daily_diaries w"
  by (simp add: loadDiaryEntries_def select_diary_of_day_def select_diary_def undefined_relation_def
      sent_def console_error_def Let_def split: option.split)

lemma handleSave_table: "daily_diaries (snd (handleSave a st w)) = daily_diaries w"
  by (simp add: handleSave_def insert_diary_def update_diary_def undefined_relation_def
      sent_def console_error_def split: option.split)

lemma saveDiary_all_table: "daily_diaries (snd (saveDiary_all a saves st w)) = daily_diaries w"
proof (induction saves arbitrary: st w)
  case Nil
  show ?case by simp
next
  case (Cons s saves)
  obtain body md where s: "s = (body, md)" by (cases s)
  show ?case
    unfolding s by (simp add: case_prod_beta Cons.IH handleSave_table)
qed

text \<open>
  C4. \<^verbatim>\<open>handleSave\<close> updates when the page holds an entry for today and inserts otherwise,
  as the claim says, but it sends either request to the relation \<^verbatim>\<open>daily_diary\<close>, and the
  table of the migration is \<^verbatim>\<open>daily_diaries\<close>. The backend answers with an error, which
  the page writes to the console; the table is as before, after one save and after any
  number of saves. For Alice, who has a profile and no entry for today, a save of "one"
  leaves the page as it was, and after two saves there is no entry for (Alice, today).
  Mounting the page fails in the same way: \<^verbatim>\<open>loadDiaryEntries\<close> gets no entry for today and
  no entries to show.
\<close>

theorem saveDiary_undefined_relation:
  "daily_diaries (snd (handleSave a st w)) = daily_diaries w
   \<and> daily_diaries (snd (saveDiary_all a saves st w)) = daily_diaries w
   \<and> handleSave alice_single (initial_Diary\<lparr>diary_content_input := ''one''\<rparr>) alice_alone
       = (initial_Diary\<lparr>diary_content_input := ''one''\<rparr>,
          alice_alone\<lparr>trace := [Request Daily_Diary Insert,
                                 ConsoleError ''Error saving diary:'' UndefinedTable]\<rparr>)
   \<and> my_entries (snd (saveDiary_all alice_single [(''one'', Happy), (''two'', Sad)] initial_Diary
                         alice_alone)) alice (today alice_alone) = []
   \<and> loadDiaryEntries alice_single initial_Diary alice_alone
       = (initial_Diary\<lparr>diary_loading := False\<rparr>,
          alice_alone\<lparr>trace := [Request Daily_Diary Select, Request Daily_Diary Select,
                                 ConsoleError ''Error loading diary:'' UndefinedTable]\<rparr>)"
proof (intro conjI)
  show "daily_diaries (snd (handleSave a st w)) = daily_diaries w"
    by (rule handleSave_table)
  show "daily_diaries (snd (saveDiary_all a saves st w)) = daily_diaries w"
    by (rule saveDiary_all_table)
  show "handleSave alice_single (initial_Diary\<lparr>diary_content_input := ''one''\<rparr>) alice_alone
       = (initial_Diary\<lparr>diary_content_input := ''one''\<rparr>,
          alice_alone\<lparr>trace := [Request Daily_Diary Insert,
                                 ConsoleError ''Error saving diary:'' UndefinedTable]\<rparr>)"
    by (simp add: handleSave_def insert_diary_def undefined_relation_def online_def sent_def
        console_error_def blank_def trim_def is_space_def alice_single_def initial_Diary_def
        alice_alone_def empty_world_def)
  show "my_entries (snd (saveDiary_all alice_single [(''one'', Happy), (''two'', Sad)] initial_Diary
                         alice_alone)) alice (today alice_alone) = []"
    unfolding my_entries_def saveDiary_all_table by (simp add: alice_alone_def empty_world_def)
  show "loadDiaryEntries alice_single initial_Diary alice_alone
       = (initial_Diary\<lparr>diary_loading := False\<rparr>,
          alice_alone\<lparr>trace := [Request Daily_Diary Select, Request Daily_Diary Select,
                                 ConsoleError ''Error loading diary:'' UndefinedTable]\<rparr>)"
    by (simp add: loadDiaryEntries_def select_diary_of_day_def select_diary_def
        undefined_relation_def online_def sent_def console_error_def Let_def alice_single_def
        initial_Diary_def alice_alone_def empty_world_def)
qed

subsection \<open>Reactions\<close>











text \<open>What requests and writes to the table of reactions leave as it was.\<close>

lemma posts_visible_frame [simp]:
  "posts_visible (w\<lparr>reactions := rs\<rparr>) auth r = posts_visible w auth r"
  "posts_visible (w\<lparr>trace := t\<rparr>) auth r = posts_visible w auth r"
  "posts_visible (w\<lparr>failures := fs\<rparr>) auth r = posts_visible w auth r"
  by (simp_all add: posts_visible_def is_partner_of_def split: option.split)

lemma posts_rows_frame [simp]:
  "posts_rows auth q (w\<lparr>reactions := rs\<rparr>) = posts_rows auth q w"
  "posts_rows auth q (w\<lparr>trace := t\<rparr>) = posts_rows auth q w"
  "posts_rows auth q (w\<lparr>failures := fs\<rparr>) = posts_rows auth q w"
  by (simp_all add: posts_rows_def)

lemma reactions_rows_frame [simp]:
  "reactions_rows auth ids (w\<lparr>trace := t\<rparr>) = reactions_rows auth ids w"
  "reactions_rows auth ids (w\<lparr>failures := fs\<rparr>) = reactions_rows auth ids w"
  by (simp_all add: reactions_rows_def reactions_visible_def)

lemma has_profile_frame [simp]:
  "has_profile (w\<lparr>reactions := rs\<rparr>) u = has_profile w u"
  "has_profile (w\<lparr>trace := t\<rparr>) u = has_profile w u"
  "has_profile (w\<lparr>failures := fs\<rparr>) u = has_profile w u"
  by (simp_all add: has_profile_def)

lemma my_reactions_frame [simp]:
  "my_reactions (w\<lparr>trace := t\<rparr>) p u = my_reactions w p u"
  "my_reactions (w\<lparr>failures := fs\<rparr>) p u = my_reactions w p u"
  by (simp_all add: my_reactions_def)

lemma reactions_unique_frame [simp]:
  "reactions_unique (w\<lparr>trace := t\<rparr>) = reactions_unique w"
  "reactions_unique (w\<lparr>failures := fs\<rparr>) = reactions_unique w"
  by (simp_all add: reactions_unique_def)

lemma reactions_pkey_frame [simp]:
  "reactions_pkey (w\<lparr>trace := t\<rparr>) = reactions_pkey w"
  "reactions_pkey (w\<lparr>failures := fs\<rparr>) = reactions_pkey w"
  by (simp_all add: reactions_pkey_def)




























end
